theory Spec2Isabelle
  imports Main "HOL-Library.Word"
begin

section \<open>The status snapshot\<close>

text \<open>
  The exporter (\<^verbatim>\<open>main.go\<close>) decodes the output of \<^verbatim>\<open>tailscale status -json\<close> into a
  \<^verbatim>\<open>TailscaleStatus\<close>. Of the many fields of that struct the program reads only the ones
  below; the others are decoded and never looked at. The anonymous structs of \<^verbatim>\<open>Self\<close>
  and of the values of \<^verbatim>\<open>Peer\<close> agree on these fields, so one record serves both.
  Go strings are byte sequences, hence \<^typ>\<open>string\<close>; Go's \<^verbatim>\<open>int\<close> is the 64-bit signed
  integer of the usual build targets, read with \<^const>\<open>sint\<close>.
\<close>

type_synonym go_int = "64 word"

record node =
  ID :: string
  HostName :: string
  DNSName :: string
  UserID :: go_int
  TailscaleIPs :: "string list"
  RxBytes :: go_int
  TxBytes :: go_int

text \<open>
  \<^verbatim>\<open>Peer\<close> is a Go map from the peer's key to its descriptor. A \<^verbatim>\<open>range\<close> loop over a map
  visits the entries in an order the runtime chooses anew each time, and the order decides
  what has been sent when a scrape dies half way. So the field is the list of entries in
  the order in which the loop of the invocation at hand visits them; a statement about
  every list is a statement about every order.
\<close>

record TailscaleStatus =
  Self :: node
  Peer :: "(string \<times> node) list"

section \<open>Errors and panics\<close>

text \<open>
  \<^verbatim>\<open>TailscaleGetStatus\<close> has two error returns, \<^verbatim>\<open>getListenAddr\<close> adds a third. The first
  wraps the error of \<^verbatim>\<open>cmd.Run()\<close> and the captured standard error, the second wraps the
  decoder's error and the captured standard output.
\<close>

datatype error =
    CommandFailure string string
  | DecodeFailure string string
  | NoIpsFound

text \<open>
  A panic is either raised by the program with an error value, or by the runtime for an
  index outside a slice (index and length), or by \<^verbatim>\<open>MustNewConstMetric\<close> for a wrong number
  of label values (expected and given).
\<close>

datatype panic =
    PanicError error
  | IndexOutOfRange nat nat
  | InconsistentCardinality nat nat

section \<open>The status fetch\<close>

text \<open>
  What one run of the external command leaves behind: the error of \<^verbatim>\<open>cmd.Run()\<close> (\<^verbatim>\<open>nil\<close>
  exactly when the command was started, exited with status 0 and its output was copied),
  and the two buffers.
\<close>

record cmd_run =
  run_err :: "string option"
  stdout :: string
  stderr :: string

text \<open>
  \<^verbatim>\<open>json.Unmarshal\<close> belongs to the standard library; it is a parameter of the model,
  returning the decoder's error or the decoded snapshot.
\<close>

definition TailscaleGetStatus ::
  "(string \<Rightarrow> string + TailscaleStatus) \<Rightarrow> cmd_run \<Rightarrow> error + TailscaleStatus" where
  "TailscaleGetStatus unmarshal r =
     (case run_err r of
        Some e \<Rightarrow> Inl (CommandFailure e (stderr r))
      | None \<Rightarrow>
          (case unmarshal (stdout r) of
             Inl e \<Rightarrow> Inl (DecodeFailure e (stdout r))
           | Inr status \<Rightarrow> Inr status))"

text \<open>
  \<^verbatim>\<open>getListenAddr\<close> fetches the status and returns the first address of the node itself.
  The run of the command it starts is its second argument.
\<close>

definition getListenAddr ::
  "(string \<Rightarrow> string + TailscaleStatus) \<Rightarrow> cmd_run \<Rightarrow> error + string" where
  "getListenAddr unmarshal r =
     (case TailscaleGetStatus unmarshal r of
        Inl err \<Rightarrow> Inl err
      | Inr status \<Rightarrow>
          (let ips = TailscaleIPs (Self status)
           in if length ips < 1 then Inl NoIpsFound else Inr (ips ! 0)))"

section \<open>The address watchdog\<close>

text \<open>
  The goroutine started by \<^verbatim>\<open>main\<close> keeps one local variable, \<^verbatim>\<open>errors\<close>, and reads the
  address \<^verbatim>\<open>ip\<close> found at startup. It ends in one of two ways, both ending the process:
  the \<^verbatim>\<open>panic\<close> after too many failed fetches, and \<^verbatim>\<open>log.Fatalf\<close> with the old and the
  new address. The counter only ever goes up by one from 0 and the loop is left once it
  passes 20, so it is an \<^typ>\<open>int\<close> here: no machine integer wraps before 21.
\<close>

datatype exit_cause =
    FetchExhaustion error
  | IdentityDrift string string

datatype watchdog =
    Running int
  | Terminated exit_cause

text \<open>
  One iteration of the \<^verbatim>\<open>for\<close> loop, given the run of the command that its call of
  \<^verbatim>\<open>getListenAddr\<close> starts. The \<^verbatim>\<open>continue\<close> after a failure and the \<^verbatim>\<open>time.Sleep\<close> after
  a success both lead to the next iteration; the time they take is not part of the state.
\<close>

fun watchdog_tick ::
  "(string \<Rightarrow> string + TailscaleStatus) \<Rightarrow> string \<Rightarrow> watchdog \<Rightarrow> cmd_run \<Rightarrow> watchdog" where
  "watchdog_tick unmarshal ip (Terminated c) r = Terminated c"
| "watchdog_tick unmarshal ip (Running errors) r =
     (case getListenAddr unmarshal r of
        Inl err \<Rightarrow>
          (let errors' = errors + 1
           in if errors' > 20 then Terminated (FetchExhaustion err) else Running errors')
      | Inr newIp \<Rightarrow>
          (if newIp \<noteq> ip then Terminated (IdentityDrift ip newIp) else Running errors))"

text \<open>
  The loop itself never returns; what can be observed is the state after finitely many
  iterations, one per run of the command.
\<close>

definition watchdog_run ::
  "(string \<Rightarrow> string + TailscaleStatus) \<Rightarrow> string \<Rightarrow> watchdog \<Rightarrow> cmd_run list \<Rightarrow> watchdog" where
  "watchdog_run unmarshal ip w rs = foldl (watchdog_tick unmarshal ip) w rs"

text \<open>The goroutine starts with \<^verbatim>\<open>errors := 0\<close>.\<close>

definition watchdog_init :: watchdog where
  "watchdog_init = Running 0"

section \<open>Library functions the collector calls\<close>

text \<open>
  Reading \<^verbatim>\<open>xs[i]\<close> panics outside the slice.
\<close>

definition slice_index :: "'a list \<Rightarrow> nat \<Rightarrow> panic + 'a" where
  "slice_index xs i =
     (if i < length xs then Inr (xs ! i) else Inl (IndexOutOfRange i (length xs)))"

text \<open>
  \<^verbatim>\<open>strings.Split(s, sep)\<close> for a separator of one byte, the only kind the program passes:
  cut \<^verbatim>\<open>s\<close> at the first separator, keep the part before it, go on with the part after
  it, and end with what is left when no separator remains.
\<close>

function Split :: "string \<Rightarrow> char \<Rightarrow> string list" where
  "Split s sep =
     (case dropWhile (\<lambda>c. c \<noteq> sep) s of
        [] \<Rightarrow> [s]
      | _ # rest \<Rightarrow> takeWhile (\<lambda>c. c \<noteq> sep) s # Split rest sep)"
  by pat_completeness auto
termination
proof (relation "measure (\<lambda>(s, sep). length s)")
  show "wf (measure (\<lambda>(s, sep). length s))"
    by simp
next
  fix s :: string and sep c rest
  assume "dropWhile (\<lambda>c. c \<noteq> sep) s = c # rest"
  then have "length (c # rest) \<le> length s"
    by (metis length_dropWhile_le)
  then show "((rest, sep), (s, sep)) \<in> measure (\<lambda>(s, sep). length s)"
    by simp
qed

declare Split.simps [simp del]

text \<open>
  \<^verbatim>\<open>strconv.Itoa\<close>: the decimal digits, most significant first, after a minus sign for a
  negative number.
\<close>

fun utoa :: "nat \<Rightarrow> string" where
  "utoa n =
     (if n < 10 then [''0123456789'' ! n]
      else utoa (n div 10) @ [''0123456789'' ! (n mod 10)])"

declare utoa.simps [simp del]

definition Itoa :: "int \<Rightarrow> string" where
  "Itoa i = (if i < 0 then CHR ''-'' # utoa (nat (- i)) else utoa (nat i))"

text \<open>
  The conversion \<^verbatim>\<open>float64(n)\<close> of an integer yields the nearest number with a 53-bit
  significand, a tie going to the even significand. Up to \<open>2 ^ 53\<close> every integer is such
  a number; a larger one of \<open>53 + e\<close> bits is rounded to a multiple of \<open>2 ^ e\<close>. The result
  is always an integer, so the model records the number the float denotes as an \<^typ>\<open>int\<close>.
  (A 64-bit integer is far below the range where a float64 overflows.)
\<close>

fun bitlen :: "nat \<Rightarrow> nat" where
  "bitlen n = (if n = 0 then 0 else Suc (bitlen (n div 2)))"

declare bitlen.simps [simp del]

definition round53 :: "nat \<Rightarrow> nat" where
  "round53 m =
     (if m < 2 ^ 53 then m
      else
        (let e = bitlen m - 53;
             q = m div 2 ^ e;
             r = m mod 2 ^ e
         in if 2 * r > 2 ^ e \<or> (2 * r = 2 ^ e \<and> odd q) then (q + 1) * 2 ^ e else q * 2 ^ e))"

definition float64 :: "int \<Rightarrow> int" where
  "float64 n = (if n < 0 then - int (round53 (nat (- n))) else int (round53 (nat n)))"

section \<open>The metrics\<close>

text \<open>
  A descriptor as made by \<^verbatim>\<open>prometheus.NewDesc(fqName, help, variableLabels, nil)\<close> and a
  sample as made by \<^verbatim>\<open>prometheus.MustNewConstMetric\<close>: the descriptor, the kind of value,
  the value and one label value for each variable label of the descriptor, in its order.
\<close>

record Desc =
  fqName :: string
  helpText :: string
  variableLabels :: "string list"

datatype ValueType = CounterValue | GaugeValue | UntypedValue

record Metric =
  desc :: Desc
  valType :: ValueType
  val :: int
  labelValues :: "string list"

definition dynLabels :: "string list" where
  "dynLabels = [''id'', ''name'', ''given_name'', ''ip'',
                ''peer_name'', ''peer_given_name'', ''peer_ip'', ''peer_user_id'']"

definition PeerRxDesc :: Desc where
  "PeerRxDesc = \<lparr>fqName = ''tailscale_peer_rx'', helpText = [], variableLabels = dynLabels\<rparr>"

definition PeerTxDesc :: Desc where
  "PeerTxDesc = \<lparr>fqName = ''tailscale_peer_tx'', helpText = [], variableLabels = dynLabels\<rparr>"

text \<open>
  \<^verbatim>\<open>MustNewConstMetric\<close> panics when the number of label values is not the number of
  variable labels. (It also refuses a label value that is not UTF-8. The decoder replaces
  every invalid byte of a JSON string by U+FFFD, cutting at the ASCII byte \<^verbatim>\<open>.\<close> keeps a
  string valid and \<^verbatim>\<open>Itoa\<close> yields ASCII, so this never happens to a decoded snapshot and
  the model has no encoding of it.)
\<close>

definition MustNewConstMetric ::
  "Desc \<Rightarrow> ValueType \<Rightarrow> int \<Rightarrow> string list \<Rightarrow> panic + Metric" where
  "MustNewConstMetric d vt v lvs =
     (if length lvs \<noteq> length (variableLabels d)
      then Inl (InconsistentCardinality (length (variableLabels d)) (length lvs))
      else Inr \<lparr>desc = d, valType = vt, val = v, labelValues = lvs\<rparr>)"

section \<open>The collector\<close>

text \<open>
  The channel \<^verbatim>\<open>ch\<close> is the list of samples sent so far; a send appends. The result of a
  function is \<^verbatim>\<open>Inr ()\<close> when it returns and the panic when it does not, together with the
  channel as it is at that moment.

  The body of the \<^verbatim>\<open>range\<close> loop of \<^verbatim>\<open>Collect\<close>, for the entries still to visit.
\<close>

fun collect_peers ::
  "string list \<Rightarrow> (string \<times> node) list \<Rightarrow> Metric list \<Rightarrow> (panic + unit) \<times> Metric list" where
  "collect_peers templateLabels [] ch = (Inr (), ch)"
| "collect_peers templateLabels ((key, peer) # peers) ch =
     (let labels = templateLabels;
          labels = labels[4 := HostName peer]
      in case slice_index (Split (DNSName peer) CHR ''.'') 0 of
           Inl p \<Rightarrow> (Inl p, ch)
         | Inr given \<Rightarrow>
        (let labels = labels[5 := given]
         in case slice_index (TailscaleIPs peer) 0 of
              Inl p \<Rightarrow> (Inl p, ch)
            | Inr addr \<Rightarrow>
           (let labels = labels[6 := addr];
                labels = labels[7 := Itoa (sint (UserID peer))]
            in case MustNewConstMetric PeerRxDesc CounterValue
                      (float64 (sint (RxBytes peer))) labels of
                 Inl p \<Rightarrow> (Inl p, ch)
               | Inr rx \<Rightarrow>
              (let ch = ch @ [rx]
               in case MustNewConstMetric PeerTxDesc CounterValue
                         (float64 (sint (TxBytes peer))) labels of
                    Inl p \<Rightarrow> (Inl p, ch)
                  | Inr tx \<Rightarrow> collect_peers templateLabels peers (ch @ [tx])))))"

text \<open>
  \<^verbatim>\<open>Collect\<close>: fetch, fill the four labels of the node itself into a slice of
  \<^verbatim>\<open>len(dynLabels)\<close> empty strings, then loop over the peers. The stores go to the constant
  indices 0 to 7 of a slice of length 8 and are plain list updates.
\<close>

definition Collect ::
  "(string \<Rightarrow> string + TailscaleStatus) \<Rightarrow> cmd_run \<Rightarrow> Metric list \<Rightarrow>
     (panic + unit) \<times> Metric list" where
  "Collect unmarshal r ch =
     (case TailscaleGetStatus unmarshal r of
        Inl err \<Rightarrow> (Inl (PanicError err), ch)
      | Inr status \<Rightarrow>
          (let templateLabels = replicate (length dynLabels) [];
               templateLabels = templateLabels[0 := ID (Self status)];
               templateLabels = templateLabels[1 := HostName (Self status)]
           in case slice_index (Split (DNSName (Self status)) CHR ''.'') 0 of
                Inl p \<Rightarrow> (Inl p, ch)
              | Inr given \<Rightarrow>
             (let templateLabels = templateLabels[2 := given]
              in case slice_index (TailscaleIPs (Self status)) 0 of
                   Inl p \<Rightarrow> (Inl p, ch)
                 | Inr addr \<Rightarrow>
                (let templateLabels = templateLabels[3 := addr]
                 in collect_peers templateLabels (Peer status) ch))))"

section \<open>Sample snapshots and runs\<close>

text \<open>
  Concrete inputs for the closed theorems below. Each document is paired with the snapshot
  the decoder yields for it: a field missing from the document keeps Go's zero value, and
  the peers stand in the order in which the loop visits them. \<open>unmarshal_fixture\<close> is a
  decoder that knows these documents and reports an error for any other input.
\<close>

definition node0 :: node where
  "node0 = \<lparr>ID = [], HostName = [], DNSName = [], UserID = 0, TailscaleIPs = [],
             RxBytes = 0, TxBytes = 0\<rparr>"

definition doc_example :: string where
  \<open>doc_example = ''{"Self":{"ID":"n0","HostName":"host1","DNSName":"host1.tailnetxyz.ts.net","TailscaleIPs":["100.64.0.1"]},"Peer":{"p1":{"ID":"n1","HostName":"host2","DNSName":"host2.tailnetxyz.ts.net","UserID":5,"TailscaleIPs":["100.64.0.2"],"RxBytes":10,"TxBytes":20}}}''\<close>

definition status_example :: TailscaleStatus where
  "status_example =
     \<lparr>Self = \<lparr>ID = ''n0'', HostName = ''host1'', DNSName = ''host1.tailnetxyz.ts.net'',
               UserID = 0, TailscaleIPs = [''100.64.0.1''], RxBytes = 0, TxBytes = 0\<rparr>,
      Peer = [(''p1'', \<lparr>ID = ''n1'', HostName = ''host2'', DNSName = ''host2.tailnetxyz.ts.net'',
                       UserID = 5, TailscaleIPs = [''100.64.0.2''], RxBytes = 10, TxBytes = 20\<rparr>)]\<rparr>"

definition doc_moved :: string where
  \<open>doc_moved = ''{"Self":{"TailscaleIPs":["100.64.0.9","100.64.0.1"]}}''\<close>

definition status_moved :: TailscaleStatus where
  "status_moved = \<lparr>Self = node0\<lparr>TailscaleIPs := [''100.64.0.9'', ''100.64.0.1'']\<rparr>, Peer = []\<rparr>"

definition doc_big :: string where
  \<open>doc_big = ''{"Self":{"TailscaleIPs":["100.64.0.1"]},"Peer":{"p1":{"DNSName":"host2","TailscaleIPs":["100.64.0.2"],"RxBytes":9007199254740993,"TxBytes":20}}}''\<close>

definition status_big :: TailscaleStatus where
  "status_big =
     \<lparr>Self = node0\<lparr>TailscaleIPs := [''100.64.0.1'']\<rparr>,
      Peer = [(''p1'', node0\<lparr>DNSName := ''host2'', TailscaleIPs := [''100.64.0.2''],
                             RxBytes := 9007199254740993, TxBytes := 20\<rparr>)]\<rparr>"

definition doc_no_self_ip :: string where
  \<open>doc_no_self_ip = ''{"Self":{"ID":"n0"},"Peer":{"p1":{"TailscaleIPs":["100.64.0.2"],"RxBytes":10,"TxBytes":20}}}''\<close>

definition status_no_self_ip :: TailscaleStatus where
  "status_no_self_ip =
     \<lparr>Self = node0\<lparr>ID := ''n0''\<rparr>,
      Peer = [(''p1'', node0\<lparr>TailscaleIPs := [''100.64.0.2''], RxBytes := 10, TxBytes := 20\<rparr>)]\<rparr>"

definition doc_peer_no_ip :: string where
  \<open>doc_peer_no_ip = ''{"Self":{"TailscaleIPs":["100.64.0.1"]},"Peer":{"p1":{"DNSName":"host2","TailscaleIPs":["100.64.0.2"],"RxBytes":10,"TxBytes":20},"p2":{"HostName":"host3"},"p3":{"TailscaleIPs":["100.64.0.4"]}}}''\<close>

definition status_peer_no_ip :: TailscaleStatus where
  "status_peer_no_ip =
     \<lparr>Self = node0\<lparr>TailscaleIPs := [''100.64.0.1'']\<rparr>,
      Peer = [(''p1'', node0\<lparr>DNSName := ''host2'', TailscaleIPs := [''100.64.0.2''],
                             RxBytes := 10, TxBytes := 20\<rparr>),
              (''p2'', node0\<lparr>HostName := ''host3''\<rparr>),
              (''p3'', node0\<lparr>TailscaleIPs := [''100.64.0.4'']\<rparr>)]\<rparr>"

definition doc_empty :: string where
  "doc_empty = ''{}''"

definition status_empty :: TailscaleStatus where
  "status_empty = \<lparr>Self = node0, Peer = []\<rparr>"

definition fixtures :: "(string \<times> TailscaleStatus) list" where
  "fixtures =
     [(doc_example, status_example), (doc_moved, status_moved), (doc_big, status_big),
      (doc_no_self_ip, status_no_self_ip), (doc_peer_no_ip, status_peer_no_ip),
      (doc_empty, status_empty)]"

definition unmarshal_fixture :: "string \<Rightarrow> string + TailscaleStatus" where
  "unmarshal_fixture s =
     (case map_of fixtures s of
        Some status \<Rightarrow> Inr status
      | None \<Rightarrow> Inl ''unexpected end of JSON input'')"

definition run_ok :: "string \<Rightarrow> cmd_run" where
  "run_ok doc = \<lparr>run_err = None, stdout = doc, stderr = []\<rparr>"

definition run_failed :: cmd_run where
  "run_failed = \<lparr>run_err = Some ''exit status 1'', stdout = [],
                  stderr = ''failed to connect to local tailscaled''\<rparr>"


section \<open>Notation for the statements\<close>

text \<open>
  The part of a name before its first dot; the slice of labels after the four stores for
  the node itself; the eight label values of a peer's samples; the two samples of a peer;
  and the samples of a list of peers, in order.
\<close>

abbreviation before_dot :: "string \<Rightarrow> string" where
  "before_dot d \<equiv> takeWhile (\<lambda>c. c \<noteq> CHR ''.'') d"

abbreviation template_of :: "node \<Rightarrow> string list" where
  "template_of self \<equiv>
     [ID self, HostName self, before_dot (DNSName self), TailscaleIPs self ! 0, [], [], [], []]"

abbreviation labels_of :: "node \<Rightarrow> node \<Rightarrow> string list" where
  "labels_of self peer \<equiv>
     [ID self, HostName self, before_dot (DNSName self), TailscaleIPs self ! 0,
      HostName peer, before_dot (DNSName peer), TailscaleIPs peer ! 0, Itoa (sint (UserID peer))]"

abbreviation rx_sample :: "node \<Rightarrow> node \<Rightarrow> Metric" where
  "rx_sample self peer \<equiv>
     \<lparr>desc = PeerRxDesc, valType = CounterValue, val = float64 (sint (RxBytes peer)),
      labelValues = labels_of self peer\<rparr>"

abbreviation tx_sample :: "node \<Rightarrow> node \<Rightarrow> Metric" where
  "tx_sample self peer \<equiv>
     \<lparr>desc = PeerTxDesc, valType = CounterValue, val = float64 (sint (TxBytes peer)),
      labelValues = labels_of self peer\<rparr>"

abbreviation emitted :: "node \<Rightarrow> (string \<times> node) list \<Rightarrow> Metric list" where
  "emitted self peers \<equiv>
     concat (map (\<lambda>(key, peer). [rx_sample self peer, tx_sample self peer]) peers)"


section \<open>The watchdog, step by step\<close>

lemma watchdog_run_Nil: "watchdog_run u ip w [] = w"
  by (simp add: watchdog_run_def)

lemma watchdog_run_Cons:
  "watchdog_run u ip w (r # rs) = watchdog_run u ip (watchdog_tick u ip w r) rs"
  by (simp add: watchdog_run_def)

lemma watchdog_run_append:
  "watchdog_run u ip w (rs @ rs') = watchdog_run u ip (watchdog_run u ip w rs) rs'"
  by (simp add: watchdog_run_def)

lemma watchdog_run_Terminated: "watchdog_run u ip (Terminated c) rs = Terminated c"
  by (induction rs) (simp_all add: watchdog_run_Nil watchdog_run_Cons)

lemma watchdog_tick_same:
  "getListenAddr u r = Inr ip \<Longrightarrow> watchdog_tick u ip (Running n) r = Running n"
  by simp

lemma watchdog_tick_other:
  "getListenAddr u r = Inr newIp \<Longrightarrow> newIp \<noteq> ip \<Longrightarrow>
   watchdog_tick u ip (Running n) r = Terminated (IdentityDrift ip newIp)"
  by simp

lemma watchdog_tick_failed:
  "getListenAddr u r = Inl err \<Longrightarrow>
   watchdog_tick u ip (Running n) r =
     (if n + 1 > 20 then Terminated (FetchExhaustion err) else Running (n + 1))"
  by (simp add: Let_def)

declare watchdog_tick.simps(2) [simp del]

lemma watchdog_run_same:
  "\<forall>r \<in> set rs. getListenAddr u r = Inr ip \<Longrightarrow> watchdog_run u ip (Running n) rs = Running n"
  by (induction rs) (simp_all add: watchdog_run_Nil watchdog_run_Cons watchdog_tick_same)

lemma watchdog_run_failed:
  "\<forall>r \<in> set rs. isl (getListenAddr u r) \<Longrightarrow> n + int (length rs) \<le> 20 \<Longrightarrow>
   watchdog_run u ip (Running n) rs = Running (n + int (length rs))"
proof (induction rs arbitrary: n)
  case Nil
  then show ?case by (simp add: watchdog_run_Nil)
next
  case (Cons r rs)
  from Cons.prems obtain err where err: "getListenAddr u r = Inl err"
    by (cases "getListenAddr u r") auto
  from Cons.prems have "n + 1 \<le> 20" by simp
  with err have "watchdog_tick u ip (Running n) r = Running (n + 1)"
    by (simp add: watchdog_tick_failed)
  moreover have "watchdog_run u ip (Running (n + 1)) rs = Running (n + 1 + int (length rs))"
    using Cons.prems by (intro Cons.IH) auto
  ultimately show ?case
    by (simp add: watchdog_run_Cons add.assoc)
qed

section \<open>The collector in closed form\<close>

lemma Split_first: "slice_index (Split d sep) 0 = Inr (takeWhile (\<lambda>c. c \<noteq> sep) d)"
proof (cases "dropWhile (\<lambda>c. c \<noteq> sep) d")
  case Nil
  then have sp: "Split d sep = [d]"
    by (subst Split.simps) (simp only: list.case)
  from Nil have tw: "takeWhile (\<lambda>c. c \<noteq> sep) d = d"
    by simp
  show ?thesis
    unfolding sp tw by (simp add: slice_index_def)
next
  case (Cons c rest)
  then have "Split d sep = takeWhile (\<lambda>c. c \<noteq> sep) d # Split rest sep"
    by (subst Split.simps) (simp only: list.case)
  then show ?thesis by (simp add: slice_index_def)
qed

lemma slice_index_first: "xs \<noteq> [] \<Longrightarrow> slice_index xs 0 = Inr (xs ! 0)"
  by (simp add: slice_index_def)

lemma slice_index_empty: "slice_index [] 0 = Inl (IndexOutOfRange 0 0)"
  by (simp add: slice_index_def)

lemma Desc_arity:
  "length (variableLabels PeerRxDesc) = 8" "length (variableLabels PeerTxDesc) = 8"
  by (simp_all add: PeerRxDesc_def PeerTxDesc_def dynLabels_def)

lemma collect_peers_step:
  assumes "TailscaleIPs peer \<noteq> []"
  shows "collect_peers (template_of self) ((key, peer) # peers) ch =
         collect_peers (template_of self) peers
           (ch @ [rx_sample self peer, tx_sample self peer])"
  using assms
  by (simp add: Split_first slice_index_first MustNewConstMetric_def Let_def Desc_arity)

lemma collect_peers_stop:
  assumes "TailscaleIPs peer = []"
  shows "collect_peers tls ((key, peer) # peers) ch = (Inl (IndexOutOfRange 0 0), ch)"
  using assms by (simp add: Split_first slice_index_empty)

lemma collect_peers_front:
  assumes "\<forall>(key, peer) \<in> set front. TailscaleIPs peer \<noteq> []"
  shows "collect_peers (template_of self) (front @ rest) ch =
         collect_peers (template_of self) rest (ch @ emitted self front)"
  using assms
proof (induction front arbitrary: ch)
  case Nil
  then show ?case by simp
next
  case (Cons kp front)
  obtain key peer where kp: "kp = (key, peer)"
    by (cases kp)
  from Cons.prems kp have "TailscaleIPs peer \<noteq> []"
    by simp
  then have "collect_peers (template_of self) ((kp # front) @ rest) ch =
      collect_peers (template_of self) (front @ rest)
        (ch @ [rx_sample self peer, tx_sample self peer])"
    by (simp add: kp collect_peers_step del: collect_peers.simps)
  also have "\<dots> = collect_peers (template_of self) rest
      ((ch @ [rx_sample self peer, tx_sample self peer]) @ emitted self front)"
    using Cons.prems by (intro Cons.IH) simp
  finally show ?case
    by (simp add: kp)
qed

lemma Collect_no_self_address:
  "TailscaleGetStatus unmarshal r = Inr status \<Longrightarrow> TailscaleIPs (Self status) = [] \<Longrightarrow>
   Collect unmarshal r ch = (Inl (IndexOutOfRange 0 0), ch)"
  by (simp add: Collect_def Split_first slice_index_empty Let_def)

lemma Collect_loop:
  "TailscaleGetStatus unmarshal r = Inr status \<Longrightarrow> TailscaleIPs (Self status) \<noteq> [] \<Longrightarrow>
   Collect unmarshal r ch =
     collect_peers (template_of (Self status)) (Peer status) ch"
  by (simp add: Collect_def Split_first slice_index_first Let_def dynLabels_def)

lemma Collect_returns:
  assumes "TailscaleGetStatus unmarshal r = Inr status"
      and "TailscaleIPs (Self status) \<noteq> []"
      and "\<forall>(key, peer) \<in> set (Peer status). TailscaleIPs peer \<noteq> []"
  shows "Collect unmarshal r ch = (Inr (), ch @ emitted (Self status) (Peer status))"
  using collect_peers_front [OF assms(3), of "Self status" "[]" ch]
  by (simp add: Collect_loop [OF assms(1,2)])

lemma Collect_aborts:
  assumes "TailscaleGetStatus unmarshal r = Inr status"
      and "TailscaleIPs (Self status) \<noteq> []"
      and "Peer status = front @ (key, peer) # rest"
      and "\<forall>(key, peer) \<in> set front. TailscaleIPs peer \<noteq> []"
      and "TailscaleIPs peer = []"
  shows "Collect unmarshal r ch = (Inl (IndexOutOfRange 0 0), ch @ emitted (Self status) front)"
  using collect_peers_front [OF assms(4), of "Self status" "(key, peer) # rest" ch]
  by (simp add: Collect_loop [OF assms(1,2)] assms(3) collect_peers_stop [OF assms(5)]
      del: collect_peers.simps)

lemma pairs_length: "length (concat (map (\<lambda>x. [f x, g x]) xs)) = 2 * length xs"
  by (induction xs) simp_all

lemma pairs_nth:
  "i < length xs \<Longrightarrow>
   concat (map (\<lambda>x. [f x, g x]) xs) ! (2 * i) = f (xs ! i) \<and>
   concat (map (\<lambda>x. [f x, g x]) xs) ! (2 * i + 1) = g (xs ! i)"
proof (induction xs arbitrary: i)
  case Nil
  then show ?case by simp
next
  case (Cons x xs)
  show ?case
  proof (cases i)
    case 0
    then show ?thesis by simp
  next
    case (Suc j)
    with Cons.prems have "j < length xs" by simp
    from Cons.IH [OF this] Suc show ?thesis by simp
  qed
qed

lemma before_dot_all: "CHR ''.'' \<notin> set d \<Longrightarrow> before_dot d = d"
  by (induction d) auto

lemma at_first_sample:
  assumes "\<exists>ms. c = (x, ch @ ms) \<and> length ms = 2 * n \<and> (\<forall>j < length ms. P ms j)"
      and "0 < n"
  shows "\<exists>ms. c = (x, ch @ ms) \<and> length ms = 2 * n \<and> P ms 0"
proof -
  from assms(1) obtain ms
    where "c = (x, ch @ ms)" and len: "length ms = 2 * n" and all: "\<forall>j < length ms. P ms j"
    by blast
  moreover from len assms(2) have "0 < length ms"
    by simp
  with all have "P ms 0"
    by blast
  ultimately show ?thesis
    by blast
qed

lemma at_first_peer:
  assumes "\<exists>ms. c = (x, ch @ ms) \<and> length ms = 2 * n \<and> (\<forall>i < n. P ms i)"
      and "0 < n"
  shows "\<exists>ms. c = (x, ch @ ms) \<and> length ms = 2 * n \<and> P ms 0"
  using assms by blast

lemma at_first_peer_and:
  assumes "\<exists>ms. c = (x, ch @ ms) \<and> length ms = 2 * n \<and> (\<forall>i < n. P ms i) \<and> Q ms"
      and "0 < n"
  shows "\<exists>ms. c = (x, ch @ ms) \<and> length ms = 2 * n \<and> P ms 0 \<and> Q ms"
  using assms by blast

lemma emitted_pairs:
  "emitted self peers =
     concat (map (\<lambda>x. [rx_sample self (snd x), tx_sample self (snd x)]) peers)"
  by (simp only: case_prod_unfold)

lemma emitted_length: "length (emitted self peers) = 2 * length peers"
  unfolding emitted_pairs by (rule pairs_length)

lemma emitted_nth:
  "i < length peers \<Longrightarrow>
   emitted self peers ! (2 * i) = rx_sample self (snd (peers ! i)) \<and>
   emitted self peers ! (2 * i + 1) = tx_sample self (snd (peers ! i))"
  unfolding emitted_pairs by (rule pairs_nth)

lemma emitted_halves:
  assumes "j < length (emitted self peers)"
  shows "emitted self peers ! j = rx_sample self (snd (peers ! (j div 2))) \<or>
         emitted self peers ! j = tx_sample self (snd (peers ! (j div 2)))"
proof -
  from assms have less: "j div 2 < length peers"
    by (simp add: emitted_length)
  note nth = emitted_nth [OF less, of self]
  show ?thesis
  proof (cases "even j")
    case True
    then have "2 * (j div 2) = j" by simp
    with nth show ?thesis by (simp only:) simp
  next
    case False
    then have "2 * (j div 2) + 1 = j" by simp
    with nth show ?thesis by (simp only:) simp
  qed
qed

section \<open>The sample inputs, evaluated\<close>

lemmas doc_defs =
  doc_example_def doc_moved_def doc_big_def doc_no_self_ip_def doc_peer_no_ip_def doc_empty_def

lemma fetch_run_ok:
  "TailscaleGetStatus unmarshal (run_ok doc) =
     (case unmarshal doc of Inl e \<Rightarrow> Inl (DecodeFailure e doc) | Inr status \<Rightarrow> Inr status)"
  by (simp add: TailscaleGetStatus_def run_ok_def split: sum.splits)

lemma unmarshal_example: "unmarshal_fixture doc_example = Inr status_example"
  by (simp add: unmarshal_fixture_def fixtures_def doc_defs)

lemma unmarshal_moved: "unmarshal_fixture doc_moved = Inr status_moved"
  by (simp add: unmarshal_fixture_def fixtures_def doc_defs)

lemma unmarshal_big: "unmarshal_fixture doc_big = Inr status_big"
  by (simp add: unmarshal_fixture_def fixtures_def doc_defs)

lemma unmarshal_no_self_ip: "unmarshal_fixture doc_no_self_ip = Inr status_no_self_ip"
  by (simp add: unmarshal_fixture_def fixtures_def doc_defs)

lemma unmarshal_peer_no_ip: "unmarshal_fixture doc_peer_no_ip = Inr status_peer_no_ip"
  by (simp add: unmarshal_fixture_def fixtures_def doc_defs)

lemma unmarshal_empty: "unmarshal_fixture doc_empty = Inr status_empty"
  by (simp add: unmarshal_fixture_def fixtures_def doc_defs)

lemmas fetch_fixture =
  fetch_run_ok unmarshal_example unmarshal_moved unmarshal_big unmarshal_no_self_ip
  unmarshal_peer_no_ip unmarshal_empty

lemma fetch_failed:
  "TailscaleGetStatus unmarshal run_failed =
     Inl (CommandFailure ''exit status 1'' ''failed to connect to local tailscaled'')"
  by (simp add: TailscaleGetStatus_def run_failed_def)

lemma listen_failed:
  "getListenAddr unmarshal run_failed =
     Inl (CommandFailure ''exit status 1'' ''failed to connect to local tailscaled'')"
  by (simp add: getListenAddr_def fetch_failed)

lemma listen_example: "getListenAddr unmarshal_fixture (run_ok doc_example) = Inr ''100.64.0.1''"
  by (simp add: getListenAddr_def fetch_fixture status_example_def)

lemma listen_moved: "getListenAddr unmarshal_fixture (run_ok doc_moved) = Inr ''100.64.0.9''"
  by (simp add: getListenAddr_def fetch_fixture status_moved_def)

lemma float64_exact:
  assumes "\<bar>n\<bar> \<le> 2 ^ 53"
  shows "float64 n = n"
proof -
  have top: "round53 (2 ^ 53) = 2 ^ 53"
    by (simp add: round53_def bitlen.simps Let_def)
  have "round53 m = m" if "m \<le> 2 ^ 53" for m
  proof (cases "m < 2 ^ 53")
    case True
    then show ?thesis by (simp add: round53_def)
  next
    case False
    with that have "m = 2 ^ 53" by simp
    with top show ?thesis by simp
  qed
  moreover from assms have "nat (- n) \<le> 2 ^ 53" "nat n \<le> 2 ^ 53"
    by simp_all
  ultimately show ?thesis
    by (simp add: float64_def)
qed


text \<open>Beyond \<open>2 ^ 53\<close> the conversion rounds to the nearest float64, a tie to the even one.\<close>

lemma float64_rounds:
  "float64 9007199254740993 = 9007199254740992"
  "float64 9007199254740994 = 9007199254740994"
  "float64 9007199254740995 = 9007199254740996"
  "float64 (- 9007199254740993) = - 9007199254740992"
  "float64 9223372036854775807 = 9223372036854775808"
  by (simp_all add: float64_def round53_def bitlen.simps Let_def)

section \<open>The collector: claims C1, C6, C7, C8 and C9\<close>

text \<open>
  C1: when the fetch yields a snapshot in which the node itself has an address and each of
  the \<open>N\<close> peers has one, \<^verbatim>\<open>Collect\<close> returns after sending exactly \<open>2 * N\<close> samples. The
  samples \<open>2 * i\<close> and \<open>2 * i + 1\<close> are the received-bytes and the transmitted-bytes sample
  of the \<open>i\<close>-th peer visited, with the same label values, the last four taken from that
  peer. Every sample has the eight label names of \<^verbatim>\<open>dynLabels\<close> in their order and eight
  label values, and its first four label values are those of the node itself, the same in
  all samples.
\<close>

theorem Collect_two_samples_per_peer:
  assumes "TailscaleGetStatus unmarshal r = Inr status"
      and "TailscaleIPs (Self status) \<noteq> []"
      and "\<forall>(key, peer) \<in> set (Peer status). TailscaleIPs peer \<noteq> []"
  shows "\<exists>ms. Collect unmarshal r ch = (Inr (), ch @ ms)
       \<and> length ms = 2 * length (Peer status)
       \<and> (\<forall>i < length (Peer status).
             desc (ms ! (2 * i)) = PeerRxDesc \<and> desc (ms ! (2 * i + 1)) = PeerTxDesc
           \<and> drop 4 (labelValues (ms ! (2 * i))) =
               [HostName (snd (Peer status ! i)), before_dot (DNSName (snd (Peer status ! i))),
                TailscaleIPs (snd (Peer status ! i)) ! 0,
                Itoa (sint (UserID (snd (Peer status ! i))))]
           \<and> labelValues (ms ! (2 * i + 1)) = labelValues (ms ! (2 * i)))
       \<and> (\<forall>j < length ms.
             variableLabels (desc (ms ! j)) =
               [''id'', ''name'', ''given_name'', ''ip'',
                ''peer_name'', ''peer_given_name'', ''peer_ip'', ''peer_user_id'']
           \<and> length (labelValues (ms ! j)) = 8
           \<and> take 4 (labelValues (ms ! j)) =
               [ID (Self status), HostName (Self status), before_dot (DNSName (Self status)),
                TailscaleIPs (Self status) ! 0]
           \<and> take 4 (labelValues (ms ! j)) = take 4 (labelValues (ms ! 0)))"
proof (intro exI conjI allI impI)
  show "Collect unmarshal r ch = (Inr (), ch @ emitted (Self status) (Peer status))"
    using assms by (rule Collect_returns)
  show "length (emitted (Self status) (Peer status)) = 2 * length (Peer status)"
    by (rule emitted_length)
next
  fix i
  assume "i < length (Peer status)"
  note nth = emitted_nth [OF this, of "Self status"]
  from nth show "desc (emitted (Self status) (Peer status) ! (2 * i)) = PeerRxDesc"
    by simp
  from nth show "desc (emitted (Self status) (Peer status) ! (2 * i + 1)) = PeerTxDesc"
    by simp
  from nth show "drop 4 (labelValues (emitted (Self status) (Peer status) ! (2 * i))) =
      [HostName (snd (Peer status ! i)), before_dot (DNSName (snd (Peer status ! i))),
       TailscaleIPs (snd (Peer status ! i)) ! 0, Itoa (sint (UserID (snd (Peer status ! i))))]"
    by simp
  from nth show "labelValues (emitted (Self status) (Peer status) ! (2 * i + 1)) =
      labelValues (emitted (Self status) (Peer status) ! (2 * i))"
    by simp
next
  fix j
  assume j: "j < length (emitted (Self status) (Peer status))"
  note at_j = emitted_halves [OF j]
  from j have "0 < length (emitted (Self status) (Peer status))"
    by (rule le_less_trans [OF le0])
  note at_0 = emitted_halves [OF this]
  from at_j show "variableLabels (desc (emitted (Self status) (Peer status) ! j)) =
      [''id'', ''name'', ''given_name'', ''ip'',
       ''peer_name'', ''peer_given_name'', ''peer_ip'', ''peer_user_id'']"
    by (auto simp: PeerRxDesc_def PeerTxDesc_def dynLabels_def)
  from at_j show "length (labelValues (emitted (Self status) (Peer status) ! j)) = 8"
    by auto
  from at_j show first4: "take 4 (labelValues (emitted (Self status) (Peer status) ! j)) =
      [ID (Self status), HostName (Self status), before_dot (DNSName (Self status)),
       TailscaleIPs (Self status) ! 0]"
    by auto
  from at_0 have "take 4 (labelValues (emitted (Self status) (Peer status) ! 0)) =
      [ID (Self status), HostName (Self status), before_dot (DNSName (Self status)),
       TailscaleIPs (Self status) ! 0]"
    by auto
  with first4 show "take 4 (labelValues (emitted (Self status) (Peer status) ! j)) =
      take 4 (labelValues (emitted (Self status) (Peer status) ! 0))"
    by simp
qed

theorem Collect_two_samples_per_peer_witness:
  "\<exists>ms. Collect unmarshal_fixture (run_ok doc_example) [] = (Inr (), ms)
      \<and> length ms = 2
      \<and> desc (ms ! 0) = PeerRxDesc
      \<and> desc (ms ! 1) = PeerTxDesc
      \<and> labelValues (ms ! 0) =
            [''n0'', ''host1'', ''host1'', ''100.64.0.1'', ''host2'', ''host2'', ''100.64.0.2'', ''5'']
      \<and> labelValues (ms ! 1) = labelValues (ms ! 0)"
proof -
  have fetched: "TailscaleGetStatus unmarshal_fixture (run_ok doc_example) = Inr status_example"
    by (simp add: fetch_fixture)
  have self_ip: "TailscaleIPs (Self status_example) \<noteq> []"
    by (simp add: status_example_def)
  have peer_ips: "\<forall>(key, peer) \<in> set (Peer status_example). TailscaleIPs peer \<noteq> []"
    by (simp add: status_example_def)
  from Collect_two_samples_per_peer [OF fetched self_ip peer_ips, of "[]"]
  obtain ms where all:
    "Collect unmarshal_fixture (run_ok doc_example) [] = (Inr (), [] @ ms)
     \<and> length ms = 2 * length (Peer status_example)
     \<and> (\<forall>i < length (Peer status_example).
           desc (ms ! (2 * i)) = PeerRxDesc \<and> desc (ms ! (2 * i + 1)) = PeerTxDesc
         \<and> drop 4 (labelValues (ms ! (2 * i))) =
             [HostName (snd (Peer status_example ! i)),
              before_dot (DNSName (snd (Peer status_example ! i))),
              TailscaleIPs (snd (Peer status_example ! i)) ! 0,
              Itoa (sint (UserID (snd (Peer status_example ! i))))]
         \<and> labelValues (ms ! (2 * i + 1)) = labelValues (ms ! (2 * i)))
     \<and> (\<forall>j < length ms.
           variableLabels (desc (ms ! j)) =
             [''id'', ''name'', ''given_name'', ''ip'',
              ''peer_name'', ''peer_given_name'', ''peer_ip'', ''peer_user_id'']
         \<and> length (labelValues (ms ! j)) = 8
         \<and> take 4 (labelValues (ms ! j)) =
             [ID (Self status_example), HostName (Self status_example),
              before_dot (DNSName (Self status_example)), TailscaleIPs (Self status_example) ! 0]
         \<and> take 4 (labelValues (ms ! j)) = take 4 (labelValues (ms ! 0)))"
    ..
  from all have collected: "Collect unmarshal_fixture (run_ok doc_example) [] = (Inr (), ms)"
    by simp
  from all have len: "length ms = 2 * length (Peer status_example)"
    by (elim conjE)
  note per_peer = conjunct1 [OF conjunct2 [OF conjunct2 [OF all]]]
  note per_sample = conjunct2 [OF conjunct2 [OF conjunct2 [OF all]]]
  from len have len2: "length ms = 2"
    by (simp add: status_example_def)
  from per_peer [rule_format, of 0]
  have rx: "desc (ms ! 0) = PeerRxDesc" and tx: "desc (ms ! 1) = PeerTxDesc"
    and last4: "drop 4 (labelValues (ms ! 0)) = [''host2'', ''host2'', ''100.64.0.2'', ''5'']"
    and same: "labelValues (ms ! 1) = labelValues (ms ! 0)"
    by (simp_all add: status_example_def Itoa_def utoa.simps)
  from per_sample [rule_format, of 0] len2
  have first4: "take 4 (labelValues (ms ! 0)) = [''n0'', ''host1'', ''host1'', ''100.64.0.1'']"
    by (simp add: status_example_def)
  have "labelValues (ms ! 0) = take 4 (labelValues (ms ! 0)) @ drop 4 (labelValues (ms ! 0))"
    by simp
  then have "labelValues (ms ! 0) =
      [''n0'', ''host1'', ''host1'', ''100.64.0.1'', ''host2'', ''host2'', ''100.64.0.2'', ''5'']"
    unfolding first4 last4 by simp
  with collected len2 rx tx same show ?thesis
    by blast
qed

text \<open>
  C7: when the fetched snapshot lists no address for the node itself, \<^verbatim>\<open>Collect\<close> panics
  at \<^verbatim>\<open>status.Self.TailscaleIPs[0]\<close>, before the loop, and the channel is as it was: no
  sample of any peer has been sent.
\<close>

theorem Collect_without_self_address:
  assumes "TailscaleGetStatus unmarshal r = Inr status"
      and "TailscaleIPs (Self status) = []"
  shows "Collect unmarshal r ch = (Inl (IndexOutOfRange 0 0), ch)"
  using assms by (rule Collect_no_self_address)

theorem Collect_without_self_address_witness:
  "TailscaleGetStatus unmarshal_fixture (run_ok doc_no_self_ip) = Inr status_no_self_ip
   \<and> TailscaleIPs (Self status_no_self_ip) = []
   \<and> length (Peer status_no_self_ip) = 1
   \<and> Collect unmarshal_fixture (run_ok doc_no_self_ip) [] = (Inl (IndexOutOfRange 0 0), [])"
proof -
  have fetched: "TailscaleGetStatus unmarshal_fixture (run_ok doc_no_self_ip) = Inr status_no_self_ip"
    by (simp add: fetch_fixture)
  have no_ip: "TailscaleIPs (Self status_no_self_ip) = []"
    by (simp add: status_no_self_ip_def node0_def)
  from Collect_without_self_address [OF fetched no_ip, of "[]"] fetched no_ip
  show ?thesis
    by (simp add: status_no_self_ip_def)
qed

text \<open>
  C6: in every sample the label \<open>given_name\<close> is the DNS name of the node itself up to,
  and without, its first dot, and the label \<open>peer_given_name\<close> is the same part of the DNS
  name of the sample's peer; a name without a dot is taken whole.
\<close>

theorem given_name_before_first_dot:
  assumes "TailscaleGetStatus unmarshal r = Inr status"
      and "TailscaleIPs (Self status) \<noteq> []"
      and "\<forall>(key, peer) \<in> set (Peer status). TailscaleIPs peer \<noteq> []"
  shows "\<exists>ms. Collect unmarshal r ch = (Inr (), ch @ ms)
       \<and> length ms = 2 * length (Peer status)
       \<and> (\<forall>j < length ms.
             variableLabels (desc (ms ! j)) ! 2 = ''given_name''
           \<and> labelValues (ms ! j) ! 2 =
               takeWhile (\<lambda>c. c \<noteq> CHR ''.'') (DNSName (Self status))
           \<and> (CHR ''.'' \<notin> set (DNSName (Self status)) \<longrightarrow>
                labelValues (ms ! j) ! 2 = DNSName (Self status))
           \<and> variableLabels (desc (ms ! j)) ! 5 = ''peer_given_name''
           \<and> labelValues (ms ! j) ! 5 =
               takeWhile (\<lambda>c. c \<noteq> CHR ''.'') (DNSName (snd (Peer status ! (j div 2))))
           \<and> (CHR ''.'' \<notin> set (DNSName (snd (Peer status ! (j div 2)))) \<longrightarrow>
                labelValues (ms ! j) ! 5 = DNSName (snd (Peer status ! (j div 2)))))"
proof (intro exI conjI allI impI)
  show "Collect unmarshal r ch = (Inr (), ch @ emitted (Self status) (Peer status))"
    using assms by (rule Collect_returns)
  show "length (emitted (Self status) (Peer status)) = 2 * length (Peer status)"
    by (rule emitted_length)
next
  fix j
  assume "j < length (emitted (Self status) (Peer status))"
  note at_j = emitted_halves [OF this]
  from at_j show "variableLabels (desc (emitted (Self status) (Peer status) ! j)) ! 2 =
      ''given_name''"
    by (auto simp: PeerRxDesc_def PeerTxDesc_def dynLabels_def)
  from at_j show "variableLabels (desc (emitted (Self status) (Peer status) ! j)) ! 5 =
      ''peer_given_name''"
    by (auto simp: PeerRxDesc_def PeerTxDesc_def dynLabels_def)
  from at_j show own: "labelValues (emitted (Self status) (Peer status) ! j) ! 2 =
      before_dot (DNSName (Self status))"
    by auto
  from at_j show peer: "labelValues (emitted (Self status) (Peer status) ! j) ! 5 =
      before_dot (DNSName (snd (Peer status ! (j div 2))))"
    by auto
  {
    assume "CHR ''.'' \<notin> set (DNSName (Self status))"
    then have "before_dot (DNSName (Self status)) = DNSName (Self status)"
      by (simp add: before_dot_all)
    with own show "labelValues (emitted (Self status) (Peer status) ! j) ! 2 =
        DNSName (Self status)"
      by (rule trans)
  }
  {
    assume "CHR ''.'' \<notin> set (DNSName (snd (Peer status ! (j div 2))))"
    then have "before_dot (DNSName (snd (Peer status ! (j div 2)))) =
        DNSName (snd (Peer status ! (j div 2)))"
      by (simp add: before_dot_all)
    with peer show "labelValues (emitted (Self status) (Peer status) ! j) ! 5 =
        DNSName (snd (Peer status ! (j div 2)))"
      by (rule trans)
  }
qed

theorem given_name_before_first_dot_witness:
  "DNSName (Self status_example) = ''host1.tailnetxyz.ts.net''
   \<and> DNSName (snd (Peer status_example ! 0)) = ''host2.tailnetxyz.ts.net''
   \<and> (\<exists>ms. Collect unmarshal_fixture (run_ok doc_example) [] = (Inr (), ms)
         \<and> labelValues (ms ! 0) ! 2 = ''host1''
         \<and> labelValues (ms ! 0) ! 5 = ''host2'')
   \<and> DNSName (snd (Peer status_big ! 0)) = ''host2''
   \<and> (\<exists>ms. Collect unmarshal_fixture (run_ok doc_big) [] = (Inr (), ms)
         \<and> labelValues (ms ! 0) ! 5 = ''host2'')"
proof -
  have "TailscaleGetStatus unmarshal_fixture (run_ok doc_example) = Inr status_example"
    and "TailscaleIPs (Self status_example) \<noteq> []"
    and "\<forall>(key, peer) \<in> set (Peer status_example). TailscaleIPs peer \<noteq> []"
    by (simp_all add: fetch_fixture status_example_def)
  from at_first_sample [OF given_name_before_first_dot [OF this, of "[]"]]
  have dotted: "\<exists>ms. Collect unmarshal_fixture (run_ok doc_example) [] = (Inr (), ms)
      \<and> labelValues (ms ! 0) ! 2 = ''host1''
      \<and> labelValues (ms ! 0) ! 5 = ''host2''"
    by (simp add: status_example_def) blast
  have "TailscaleGetStatus unmarshal_fixture (run_ok doc_big) = Inr status_big"
    and "TailscaleIPs (Self status_big) \<noteq> []"
    and "\<forall>(key, peer) \<in> set (Peer status_big). TailscaleIPs peer \<noteq> []"
    by (simp_all add: fetch_fixture status_big_def)
  from at_first_sample [OF given_name_before_first_dot [OF this, of "[]"]]
  have plain: "\<exists>ms. Collect unmarshal_fixture (run_ok doc_big) [] = (Inr (), ms)
      \<and> labelValues (ms ! 0) ! 5 = ''host2''"
    by (simp add: status_big_def node0_def) blast
  from dotted plain show ?thesis
    by (simp add: status_example_def status_big_def)
qed

text \<open>
  The claim C8 reads: the value of a sample equals exactly the byte count of the snapshot.
  The value is \<^verbatim>\<open>float64(peer.RxBytes)\<close>, and a float64 has 53 bits of significand: the count
  \<open>2 ^ 53 + 1 = 9007199254740993\<close> is sent as \<open>2 ^ 53\<close>.
\<close>

theorem sample_value_rounded_counterexample:
  "TailscaleGetStatus unmarshal_fixture (run_ok doc_big) = Inr status_big
   \<and> sint (RxBytes (snd (Peer status_big ! 0))) = 9007199254740993
   \<and> map val (snd (Collect unmarshal_fixture (run_ok doc_big) [])) = [9007199254740992, 20]"
proof -
  have fetched: "TailscaleGetStatus unmarshal_fixture (run_ok doc_big) = Inr status_big"
    by (simp add: fetch_fixture)
  have "Collect unmarshal_fixture (run_ok doc_big) [] =
      (Inr (), emitted (Self status_big) (Peer status_big))"
    using Collect_returns [OF fetched, of "[]"] by (simp add: status_big_def node0_def)
  then show ?thesis
    using fetched by (simp add: status_big_def node0_def float64_rounds float64_exact)
qed

text \<open>
  C8, as the code has it: the value of a sample is the conversion to float64 of the byte
  count (received or transmitted) that the snapshot reports for the peer, and nothing else
  is done to it; it equals the count exactly whenever the count is at most \<open>2 ^ 53\<close> in
  absolute value.
\<close>

theorem sample_value_is_float64_of_counter:
  assumes "TailscaleGetStatus unmarshal r = Inr status"
      and "TailscaleIPs (Self status) \<noteq> []"
      and "\<forall>(key, peer) \<in> set (Peer status). TailscaleIPs peer \<noteq> []"
  shows "\<exists>ms. Collect unmarshal r ch = (Inr (), ch @ ms)
       \<and> length ms = 2 * length (Peer status)
       \<and> (\<forall>i < length (Peer status).
             val (ms ! (2 * i)) = float64 (sint (RxBytes (snd (Peer status ! i))))
           \<and> val (ms ! (2 * i + 1)) = float64 (sint (TxBytes (snd (Peer status ! i))))
           \<and> (\<bar>sint (RxBytes (snd (Peer status ! i)))\<bar> \<le> 2 ^ 53 \<longrightarrow>
                val (ms ! (2 * i)) = sint (RxBytes (snd (Peer status ! i))))
           \<and> (\<bar>sint (TxBytes (snd (Peer status ! i)))\<bar> \<le> 2 ^ 53 \<longrightarrow>
                val (ms ! (2 * i + 1)) = sint (TxBytes (snd (Peer status ! i)))))"
proof (intro exI conjI allI impI)
  show "Collect unmarshal r ch = (Inr (), ch @ emitted (Self status) (Peer status))"
    using assms by (rule Collect_returns)
  show "length (emitted (Self status) (Peer status)) = 2 * length (Peer status)"
    by (rule emitted_length)
next
  fix i
  assume "i < length (Peer status)"
  note nth = emitted_nth [OF this, of "Self status"]
  from nth show rx: "val (emitted (Self status) (Peer status) ! (2 * i)) =
      float64 (sint (RxBytes (snd (Peer status ! i))))"
    by simp
  from nth show tx: "val (emitted (Self status) (Peer status) ! (2 * i + 1)) =
      float64 (sint (TxBytes (snd (Peer status ! i))))"
    by simp
  {
    assume "\<bar>sint (RxBytes (snd (Peer status ! i)))\<bar> \<le> 2 ^ 53"
    then have "float64 (sint (RxBytes (snd (Peer status ! i)))) =
        sint (RxBytes (snd (Peer status ! i)))"
      by (rule float64_exact)
    with rx show "val (emitted (Self status) (Peer status) ! (2 * i)) =
        sint (RxBytes (snd (Peer status ! i)))"
      by (rule trans)
  }
  {
    assume "\<bar>sint (TxBytes (snd (Peer status ! i)))\<bar> \<le> 2 ^ 53"
    then have "float64 (sint (TxBytes (snd (Peer status ! i)))) =
        sint (TxBytes (snd (Peer status ! i)))"
      by (rule float64_exact)
    with tx show "val (emitted (Self status) (Peer status) ! (2 * i + 1)) =
        sint (TxBytes (snd (Peer status ! i)))"
      by (rule trans)
  }
qed

theorem sample_value_is_float64_of_counter_witness:
  "sint (RxBytes (snd (Peer status_example ! 0))) = 10
   \<and> sint (TxBytes (snd (Peer status_example ! 0))) = 20
   \<and> (\<exists>ms. Collect unmarshal_fixture (run_ok doc_example) [] = (Inr (), ms)
         \<and> length ms = 2 \<and> val (ms ! 0) = 10 \<and> val (ms ! 1) = 20)"
proof -
  have "TailscaleGetStatus unmarshal_fixture (run_ok doc_example) = Inr status_example"
    and "TailscaleIPs (Self status_example) \<noteq> []"
    and "\<forall>(key, peer) \<in> set (Peer status_example). TailscaleIPs peer \<noteq> []"
    by (simp_all add: fetch_fixture status_example_def)
  from at_first_peer [OF sample_value_is_float64_of_counter [OF this, of "[]"]]
  have "\<exists>ms. Collect unmarshal_fixture (run_ok doc_example) [] = (Inr (), ms)
      \<and> length ms = 2 \<and> val (ms ! 0) = 10 \<and> val (ms ! 1) = 20"
    by (simp add: status_example_def float64_exact) blast
  then show ?thesis
    by (simp add: status_example_def)
qed

text \<open>
  C9: when the node itself has an address and the loop reaches a peer without one after
  visiting the peers \<open>front\<close>, which all have one, \<^verbatim>\<open>Collect\<close> panics there, and the two
  samples of each peer of \<open>front\<close> have been sent: fewer than two for each peer of the
  snapshot, and at least two if \<open>front\<close> is not empty.
\<close>

theorem Collect_aborts_at_peer_without_address:
  assumes "TailscaleGetStatus unmarshal r = Inr status"
      and "TailscaleIPs (Self status) \<noteq> []"
      and "Peer status = front @ (key, peer) # rest"
      and "\<forall>(key, peer) \<in> set front. TailscaleIPs peer \<noteq> []"
      and "TailscaleIPs peer = []"
  shows "\<exists>ms. Collect unmarshal r ch = (Inl (IndexOutOfRange 0 0), ch @ ms)
       \<and> length ms = 2 * length front
       \<and> (\<forall>i < length front.
             ms ! (2 * i) = rx_sample (Self status) (snd (front ! i))
           \<and> ms ! (2 * i + 1) = tx_sample (Self status) (snd (front ! i)))
       \<and> length ms < 2 * length (Peer status)
       \<and> (front \<noteq> [] \<longrightarrow> ms \<noteq> [])"
proof (intro exI conjI allI impI)
  show "Collect unmarshal r ch =
      (Inl (IndexOutOfRange 0 0), ch @ emitted (Self status) front)"
    using assms by (rule Collect_aborts)
  show len: "length (emitted (Self status) front) = 2 * length front"
    by (rule emitted_length)
  show "length (emitted (Self status) front) < 2 * length (Peer status)"
    unfolding len assms(3) by simp
  {
    assume "front \<noteq> []"
    then have "0 < length (emitted (Self status) front)"
      unfolding len by simp
    then show "emitted (Self status) front \<noteq> []"
      by (rule length_greater_0_conv [THEN iffD1])
  }
next
  fix i
  assume "i < length front"
  note nth = emitted_nth [OF this, of "Self status"]
  from nth show "emitted (Self status) front ! (2 * i) = rx_sample (Self status) (snd (front ! i))"
    by (rule conjunct1)
  from nth show "emitted (Self status) front ! (2 * i + 1) =
      tx_sample (Self status) (snd (front ! i))"
    by (rule conjunct2)
qed

theorem Collect_aborts_at_peer_without_address_witness:
  "length (Peer status_peer_no_ip) = 3
   \<and> TailscaleIPs (snd (Peer status_peer_no_ip ! 1)) = []
   \<and> (\<exists>ms. Collect unmarshal_fixture (run_ok doc_peer_no_ip) [] =
           (Inl (IndexOutOfRange 0 0), ms)
         \<and> length ms = 2 \<and> val (ms ! 0) = 10 \<and> val (ms ! 1) = 20)"
proof -
  have "TailscaleGetStatus unmarshal_fixture (run_ok doc_peer_no_ip) = Inr status_peer_no_ip"
    and "TailscaleIPs (Self status_peer_no_ip) \<noteq> []"
    and "Peer status_peer_no_ip =
      [(''p1'', node0\<lparr>DNSName := ''host2'', TailscaleIPs := [''100.64.0.2''],
                       RxBytes := 10, TxBytes := 20\<rparr>)]
      @ (''p2'', node0\<lparr>HostName := ''host3''\<rparr>)
      # [(''p3'', node0\<lparr>TailscaleIPs := [''100.64.0.4'']\<rparr>)]"
    and "\<forall>(key, peer) \<in> set [(''p1'', node0\<lparr>DNSName := ''host2'',
        TailscaleIPs := [''100.64.0.2''], RxBytes := 10, TxBytes := 20\<rparr>)].
        TailscaleIPs peer \<noteq> []"
    and "TailscaleIPs (node0\<lparr>HostName := ''host3''\<rparr>) = []"
    by (simp_all add: fetch_fixture status_peer_no_ip_def node0_def)
  from at_first_peer_and [OF Collect_aborts_at_peer_without_address [OF this, of "[]"]]
  have "\<exists>ms. Collect unmarshal_fixture (run_ok doc_peer_no_ip) [] =
        (Inl (IndexOutOfRange 0 0), ms)
      \<and> length ms = 2 \<and> val (ms ! 0) = 10 \<and> val (ms ! 1) = 20"
    by (simp add: node0_def float64_exact) fastforce
  then show ?thesis
    by (simp add: status_peer_no_ip_def node0_def)
qed

section \<open>The status fetch: claim C4\<close>

text \<open>
  The claim C4 reads: a run that exits non-zero or writes to standard error makes the fetch
  return a \<open>CommandFailure\<close> carrying the diagnostic text, also when the exit status is 0.
  The function looks at the error of \<^verbatim>\<open>cmd.Run()\<close> only. A run without error whose standard
  error holds a warning is decoded like any other.
\<close>

theorem fetch_ignores_stderr_counterexample:
  "TailscaleGetStatus unmarshal_fixture \<lparr>run_err = None, stdout = doc_empty, stderr = ''warning''\<rparr>
     = Inr status_empty"
  by (simp add: TailscaleGetStatus_def unmarshal_empty)

text \<open>
  C4, as the code has it: when \<^verbatim>\<open>cmd.Run()\<close> returns an error (the command did not start,
  exited non-zero or was killed at the deadline), the fetch returns a \<open>CommandFailure\<close>
  that carries this error and the text of standard error. When it returns none, the result
  is the same whatever standard error holds, and it is never a \<open>CommandFailure\<close>.
\<close>

theorem fetch_command_failure:
  "(run_err r = Some e \<longrightarrow> TailscaleGetStatus unmarshal r = Inl (CommandFailure e (stderr r)))
   \<and> (run_err r = None \<longrightarrow>
        TailscaleGetStatus unmarshal r = TailscaleGetStatus unmarshal (r\<lparr>stderr := d\<rparr>)
        \<and> TailscaleGetStatus unmarshal r \<noteq> Inl (CommandFailure e' d'))"
  by (simp add: TailscaleGetStatus_def split: sum.splits)

theorem fetch_command_failure_witness:
  "run_err run_failed = Some ''exit status 1''
   \<and> TailscaleGetStatus unmarshal_fixture run_failed =
       Inl (CommandFailure ''exit status 1'' ''failed to connect to local tailscaled'')
   \<and> run_err (run_ok doc_example) = None
   \<and> TailscaleGetStatus unmarshal_fixture (run_ok doc_example\<lparr>stderr := ''warning''\<rparr>) =
       Inr status_example"
  using fetch_command_failure [of run_failed "''exit status 1''" unmarshal_fixture]
    fetch_command_failure [of "run_ok doc_example" "[]" unmarshal_fixture "''warning''"]
  by (simp add: run_failed_def run_ok_def fetch_fixture [unfolded run_ok_def])

section \<open>The watchdog: claims C2, C3, C5 and C10\<close>

text \<open>
  The claim C2 reads: a successful fetch that reports the bound address sets the counter
  of failures back to 0, so that it is 0 after 19 failures and one such success. The loop
  has no assignment to \<^verbatim>\<open>errors\<close> besides \<^verbatim>\<open>errors++\<close>: after these 20 iterations the
  counter is 19.
\<close>

theorem watchdog_no_reset_counterexample:
  "watchdog_run unmarshal_fixture ''100.64.0.1'' watchdog_init
     (replicate 19 run_failed @ [run_ok doc_example]) = Running 19"
  by (simp add: watchdog_init_def watchdog_run_append watchdog_run_failed listen_failed
      watchdog_run_Cons watchdog_run_Nil watchdog_tick_same listen_example)

text \<open>
  C2, as the code has it: an iteration whose fetch succeeds and reports the bound address
  leaves the counter as it is and the watchdog running; after 19 failed fetches from the
  start and one such success the counter is 19 and the watchdog is running.
\<close>

theorem watchdog_success_keeps_counter:
  assumes "getListenAddr unmarshal ok = Inr ip"
  shows "watchdog_tick unmarshal ip (Running errors) ok = Running errors
       \<and> ((\<forall>r \<in> set fails. isl (getListenAddr unmarshal r)) \<and> length fails = 19 \<longrightarrow>
            watchdog_run unmarshal ip watchdog_init (fails @ [ok]) = Running 19)"
  using assms
  by (simp add: watchdog_init_def watchdog_run_append watchdog_run_failed
      watchdog_run_Cons watchdog_run_Nil watchdog_tick_same)

theorem watchdog_success_keeps_counter_witness:
  "getListenAddr unmarshal_fixture (run_ok doc_example) = Inr ''100.64.0.1''
   \<and> watchdog_tick unmarshal_fixture ''100.64.0.1'' (Running 7) (run_ok doc_example) = Running 7
   \<and> length (replicate 19 run_failed) = 19
   \<and> watchdog_run unmarshal_fixture ''100.64.0.1'' watchdog_init
        (replicate 19 run_failed @ [run_ok doc_example]) = Running 19"
  using watchdog_success_keeps_counter [OF listen_example, of 7 "replicate 19 run_failed"]
  by (simp add: listen_example listen_failed)

text \<open>
  The claim C3 reads: from counter 0, exactly 20 failed fetches in a row end the watchdog.
  The test is \<^verbatim>\<open>errors > 20\<close> after the increment, so after 20 failures the watchdog is
  still running.
\<close>

theorem watchdog_20_failures_counterexample:
  "watchdog_run unmarshal_fixture ''100.64.0.1'' watchdog_init (replicate 20 run_failed)
     = Running 20"
  by (simp add: watchdog_init_def watchdog_run_failed listen_failed)

text \<open>
  C3, as the code has it: from counter 0, a sequence of failed fetches leaves the watchdog
  running, the counter being their number, as long as there are at most 20 of them; the
  21st failure ends it, with the error of that fetch.
\<close>

theorem watchdog_terminates_at_21st_failure:
  assumes "\<forall>r \<in> set rs. isl (getListenAddr unmarshal r)"
  shows "(length rs \<le> 20 \<longrightarrow>
            watchdog_run unmarshal ip watchdog_init rs = Running (int (length rs)))
       \<and> (length rs = 21 \<longrightarrow>
            (\<exists>err. getListenAddr unmarshal (rs ! 20) = Inl err
                 \<and> watchdog_run unmarshal ip watchdog_init rs = Terminated (FetchExhaustion err)))"
proof (intro conjI impI)
  assume "length rs \<le> 20"
  with assms show "watchdog_run unmarshal ip watchdog_init rs = Running (int (length rs))"
    using watchdog_run_failed [of rs unmarshal 0 ip] by (simp add: watchdog_init_def)
next
  assume len: "length rs = 21"
  then have split: "rs = take 20 rs @ [rs ! 20]"
    by (metis lessI numeral_eq_Suc pred_numeral_simps(3) take_Suc_conv_app_nth take_all
        order_refl)
  from len have "rs ! 20 \<in> set rs"
    by simp
  with assms obtain err where err: "getListenAddr unmarshal (rs ! 20) = Inl err"
    by (cases "getListenAddr unmarshal (rs ! 20)") auto
  have "\<forall>r \<in> set (take 20 rs). isl (getListenAddr unmarshal r)"
    using assms by (meson in_set_takeD)
  then have "watchdog_run unmarshal ip (Running 0) (take 20 rs) = Running 20"
    using watchdog_run_failed [of "take 20 rs" unmarshal 0 ip] len by simp
  then have "watchdog_run unmarshal ip watchdog_init (take 20 rs @ [rs ! 20]) =
      Terminated (FetchExhaustion err)"
    by (simp add: watchdog_init_def watchdog_run_append watchdog_run_Cons watchdog_run_Nil
        watchdog_tick_failed [OF err])
  with split err
  show "\<exists>err. getListenAddr unmarshal (rs ! 20) = Inl err
      \<and> watchdog_run unmarshal ip watchdog_init rs = Terminated (FetchExhaustion err)"
    by auto
qed

theorem watchdog_terminates_at_21st_failure_witness:
  "length (replicate 21 run_failed) = 21
   \<and> watchdog_run unmarshal_fixture ''100.64.0.1'' watchdog_init (replicate 21 run_failed) =
       Terminated (FetchExhaustion
         (CommandFailure ''exit status 1'' ''failed to connect to local tailscaled''))"
  using watchdog_terminates_at_21st_failure
    [of "replicate 21 run_failed" unmarshal_fixture "''100.64.0.1''"]
  by (simp add: listen_failed)

text \<open>
  C5: with bound address \<open>A\<close>, iterations whose fetches all succeed and report \<open>A\<close> keep
  the watchdog running (after each of them, whatever the counter was), and an iteration
  whose fetch succeeds and reports \<open>B \<noteq> A\<close> ends it at once, whatever the counter and
  whatever comes later.
\<close>

theorem watchdog_identity_drift:
  assumes "\<forall>r \<in> set rs. getListenAddr unmarshal r = Inr A"
      and "getListenAddr unmarshal r' = Inr B"
      and "B \<noteq> A"
  shows "(\<forall>k \<le> length rs. watchdog_run unmarshal A (Running errors) (take k rs) = Running errors)
       \<and> watchdog_tick unmarshal A (Running errors) r' = Terminated (IdentityDrift A B)
       \<and> watchdog_run unmarshal A (Running errors) (rs @ r' # later) =
           Terminated (IdentityDrift A B)"
proof (intro conjI allI impI)
  fix k
  have "\<forall>r \<in> set (take k rs). getListenAddr unmarshal r = Inr A"
    using assms(1) by (meson in_set_takeD)
  then show "watchdog_run unmarshal A (Running errors) (take k rs) = Running errors"
    by (rule watchdog_run_same)
next
  show tick: "watchdog_tick unmarshal A (Running errors) r' = Terminated (IdentityDrift A B)"
    using assms(2,3) by (rule watchdog_tick_other)
  show "watchdog_run unmarshal A (Running errors) (rs @ r' # later) =
      Terminated (IdentityDrift A B)"
    by (simp add: watchdog_run_append watchdog_run_same [OF assms(1)] watchdog_run_Cons tick
        watchdog_run_Terminated)
qed

theorem watchdog_identity_drift_witness:
  "getListenAddr unmarshal_fixture (run_ok doc_moved) = Inr ''100.64.0.9''
   \<and> watchdog_run unmarshal_fixture ''100.64.0.1'' watchdog_init
        [run_ok doc_example, run_ok doc_example] = Running 0
   \<and> watchdog_run unmarshal_fixture ''100.64.0.1'' watchdog_init
        [run_ok doc_example, run_ok doc_example, run_ok doc_moved, run_ok doc_example] =
       Terminated (IdentityDrift ''100.64.0.1'' ''100.64.0.9'')"
proof -
  have same: "\<forall>r \<in> set [run_ok doc_example, run_ok doc_example].
      getListenAddr unmarshal_fixture r = Inr ''100.64.0.1''"
    by (simp add: listen_example)
  have ne: "''100.64.0.9'' \<noteq> ''100.64.0.1''"
    by simp
  note drift = watchdog_identity_drift [OF same listen_moved ne, of 0 "[run_ok doc_example]"]
  from conjunct1 [OF drift, rule_format, of 2]
  have "watchdog_run unmarshal_fixture ''100.64.0.1'' (Running 0)
          [run_ok doc_example, run_ok doc_example] = Running 0"
    by simp
  moreover from conjunct2 [OF conjunct2 [OF drift]]
  have "watchdog_run unmarshal_fixture ''100.64.0.1'' (Running 0)
          [run_ok doc_example, run_ok doc_example, run_ok doc_moved, run_ok doc_example] =
         Terminated (IdentityDrift ''100.64.0.1'' ''100.64.0.9'')"
    by simp
  ultimately show ?thesis
    by (simp add: listen_moved watchdog_init_def)
qed

text \<open>
  C10: the comparison looks at the first address of the node itself and at nothing else.
  When the fetch succeeds and the list of addresses is \<open>first # others\<close>, the iteration
  ends the watchdog if \<open>first\<close> is not the bound address, also when the bound address is
  among \<open>others\<close>, and keeps it running if \<open>first\<close> is the bound address, whatever
  \<open>others\<close> holds.
\<close>

theorem watchdog_compares_first_address:
  assumes "TailscaleGetStatus unmarshal r = Inr status"
      and "TailscaleIPs (Self status) = first # others"
  shows "(first \<noteq> ip \<longrightarrow>
            watchdog_tick unmarshal ip (Running errors) r = Terminated (IdentityDrift ip first))
       \<and> (first = ip \<longrightarrow> watchdog_tick unmarshal ip (Running errors) r = Running errors)"
  using assms by (simp add: getListenAddr_def watchdog_tick.simps(2))

theorem watchdog_compares_first_address_witness:
  "TailscaleGetStatus unmarshal_fixture (run_ok doc_moved) = Inr status_moved
   \<and> TailscaleIPs (Self status_moved) = [''100.64.0.9'', ''100.64.0.1'']
   \<and> watchdog_tick unmarshal_fixture ''100.64.0.1'' (Running 0) (run_ok doc_moved) =
       Terminated (IdentityDrift ''100.64.0.1'' ''100.64.0.9'')
   \<and> watchdog_tick unmarshal_fixture ''100.64.0.9'' (Running 0) (run_ok doc_moved) = Running 0"
proof -
  have fetched: "TailscaleGetStatus unmarshal_fixture (run_ok doc_moved) = Inr status_moved"
    by (simp add: fetch_fixture)
  have ips: "TailscaleIPs (Self status_moved) = [''100.64.0.9'', ''100.64.0.1'']"
    by (simp add: status_moved_def)
  from watchdog_compares_first_address [OF fetched ips, of "''100.64.0.1''" 0]
    watchdog_compares_first_address [OF fetched ips, of "''100.64.0.9''" 0]
  show ?thesis
    using fetched ips by simp
qed

end
